theory Spec2Isabelle
  imports Main "HOL-Library.Sublist"
begin

section \<open>The program\<close>

text \<open>
  The repository is one module, \<^verbatim>\<open>src/app.py\<close>:
  \<^verbatim>\<open>
  from flask import Flask

  app = Flask(__name__)

  @app.route("/")
  def home():
      return "<U+1F389> Skincare AI Backend is Running!"

  if __name__ == "__main__":
      app.run(debug=True)
  \<close>
  (the first character of the literal is the single code point U+1F389, PARTY POPPER).
  The module builds an application object, registers one view function and, when it is
  the main program, starts the development server. Everything else that happens to a
  request is done by the framework the module imports (Flask on Werkzeug), which is
  not part of the repository; the sections below model the part of it that the three
  calls of the module (\<^verbatim>\<open>Flask(...)\<close>, \<^verbatim>\<open>app.route(...)\<close>,
  \<^verbatim>\<open>app.run(...)\<close>) reach.
\<close>

section \<open>Requests, responses and the process state\<close>

datatype http_method = GET | HEAD | POST | PUT | DELETE | OPTIONS | PATCH | TRACE | CONNECT

text \<open>
  A request as a view function can read it through Flask's \<^verbatim>\<open>request\<close> object:
  the path is the path component alone, the query string is kept apart from it.
\<close>

record request =
  req_method :: http_method
  req_path :: string
  query_string :: string
  req_headers :: "(string \<times> string) list"
  req_data :: string

text \<open>
  A response body is a sequence of bytes (a \<^typ>\<open>string\<close> is a list of 8-bit
  characters). The pages the framework writes for its own error responses are not
  modelled byte by byte: \<open>DefaultPage code\<close> stands for the framework's page for that
  status. \<open>allow\<close> is the set of methods the \<^verbatim>\<open>Allow\<close> header names, empty when
  the header is absent; the order in which the header lists them is not fixed by the
  framework and not modelled.
\<close>

datatype payload = Bytes string | DefaultPage nat

record response =
  status :: nat
  mimetype :: string
  allow :: "http_method set"
  body :: payload

text \<open>
  What a view function could touch besides its return value: the lines written to a log,
  the files of the application's static folder, and the calls sent to other services.
  \<open>static_folder w f\<close> is what the framework's lookup of the name \<open>f\<close> in the static
  folder finds, the guessed content type and the bytes of a file, and \<open>None\<close> when it
  finds no file.
\<close>

record world =
  log_lines :: "string list"
  static_folder :: "string \<rightharpoonup> (string \<times> string)"
  outbound_calls :: "string list"

text \<open>
  Exceptions are values. \<open>NotFound\<close> and \<open>MethodNotAllowed\<close> are Werkzeug's HTTP
  exceptions (the second carries the methods the URL accepts); \<open>Unhandled\<close> is any other
  exception, which the framework answers with status 500.
\<close>

datatype error = NotFound | MethodNotAllowed "http_method set" | Unhandled

text \<open>
  A Python \<^verbatim>\<open>str\<close> is a sequence of Unicode code points. A view function returns
  either a \<^verbatim>\<open>str\<close> or a response object.
\<close>

datatype view_rv = RvStr "nat list" | RvResponse response

type_synonym view = "request \<Rightarrow> string list \<Rightarrow> world \<Rightarrow> (error + view_rv) \<times> world"

section \<open>The view function of \<^verbatim>\<open>app.py\<close>\<close>

text \<open>
  \<^verbatim>\<open>def home(): return "<U+1F389> Skincare AI Backend is Running!"\<close>.
  The function has no parameters; the request being handled and the process state are
  ambient in Python and explicit here.
\<close>

definition home :: "request \<Rightarrow> world \<Rightarrow> (error + view_rv) \<times> world" where
  "home req w = (Inr (RvStr (0x1F389 # map of_char '' Skincare AI Backend is Running!'')), w)"

section \<open>The framework calls the module makes\<close>

subsection \<open>Text encoding\<close>

text \<open>
  Python's \<^verbatim>\<open>str.encode("utf-8")\<close>, which the framework applies to a
  \<^verbatim>\<open>str\<close> return value: one to four bytes per code point, and
  \<^verbatim>\<open>UnicodeEncodeError\<close> (here \<open>None\<close>) on a surrogate.
\<close>

fun utf8_char :: "nat \<Rightarrow> string option" where
  "utf8_char c =
    (if c < 0x80 then Some [char_of c]
     else if c < 0x800 then
       Some [char_of (0xC0 + c div 0x40), char_of (0x80 + c mod 0x40)]
     else if 0xD800 \<le> c \<and> c < 0xE000 then None
     else if c < 0x10000 then
       Some [char_of (0xE0 + c div 0x1000), char_of (0x80 + c div 0x40 mod 0x40),
             char_of (0x80 + c mod 0x40)]
     else if c < 0x110000 then
       Some [char_of (0xF0 + c div 0x40000), char_of (0x80 + c div 0x1000 mod 0x40),
             char_of (0x80 + c div 0x40 mod 0x40), char_of (0x80 + c mod 0x40)]
     else None)"

fun encode_utf8 :: "nat list \<Rightarrow> string option" where
  "encode_utf8 [] = Some []"
| "encode_utf8 (c # cs) =
    (case utf8_char c of
       None \<Rightarrow> None
     | Some bs \<Rightarrow> (case encode_utf8 cs of None \<Rightarrow> None | Some rest \<Rightarrow> Some (bs @ rest)))"

subsection \<open>The application object and its URL map\<close>

text \<open>
  A URL rule. \<open>Exact s\<close> is a rule string without converters such as \<^verbatim>\<open>"/"\<close>;
  \<open>PathUnder p\<close> is \<open>p\<close> followed by one \<^verbatim>\<open><path:...>\<close> converter, which
  matches a non-empty rest that does not start with a slash.
\<close>

datatype rule_pattern = Exact string | PathUnder string

record rule =
  pattern :: rule_pattern
  methods :: "http_method set"
  endpoint :: string
  provide_automatic_options :: bool

record flask =
  import_name :: string
  url_map :: "rule list"
  view_functions :: "string \<rightharpoonup> view"

text \<open>
  \<^verbatim>\<open>Flask.add_url_rule\<close> called without \<^verbatim>\<open>methods\<close>, as both callers below
  do: the rule listens for \<^verbatim>\<open>GET\<close>, Werkzeug adds \<^verbatim>\<open>HEAD\<close> to a rule
  that has \<^verbatim>\<open>GET\<close>, and Flask adds \<^verbatim>\<open>OPTIONS\<close>, answered by itself.
\<close>

definition add_url_rule :: "rule_pattern \<Rightarrow> string \<Rightarrow> view \<Rightarrow> flask \<Rightarrow> flask" where
  "add_url_rule pat ep f a =
     a\<lparr>url_map := url_map a @
          [\<lparr>pattern = pat, methods = {GET, HEAD, OPTIONS}, endpoint = ep,
            provide_automatic_options = True\<rparr>],
       view_functions := (view_functions a)(ep \<mapsto> f)\<rparr>"

text \<open>
  The view of the static endpoint: \<^verbatim>\<open>NotFound\<close> when the static folder has no
  file of that name, the file otherwise. The answer with the file is that to a plain
  request; the partial and not-modified answers the real view gives to a request with
  \<^verbatim>\<open>Range\<close> or conditional headers are not modelled, and no statement below is
  about a file that exists.
\<close>

definition send_static_file :: view where
  "send_static_file req args w =
     (case args of
        [filename] \<Rightarrow>
          (case static_folder w filename of
             None \<Rightarrow> (Inl NotFound, w)
           | Some (mt, data) \<Rightarrow>
               (Inr (RvResponse \<lparr>status = 200, mimetype = mt, allow = {}, body = Bytes data\<rparr>), w))
      | _ \<Rightarrow> (Inl Unhandled, w))"

text \<open>
  \<^verbatim>\<open>Flask(import_name)\<close>: the constructor's default static folder is
  \<^verbatim>\<open>"static"\<close>, so it registers the rule \<^verbatim>\<open>/static/<path:filename>\<close>
  under the endpoint \<^verbatim>\<open>static\<close> before the module adds anything.
\<close>

definition Flask :: "string \<Rightarrow> flask" where
  "Flask name =
     add_url_rule (PathUnder ''/static/'') ''static'' send_static_file
       \<lparr>import_name = name, url_map = [], view_functions = Map.empty\<rparr>"

text \<open>
  \<^verbatim>\<open>@app.route(rule)\<close> on a function without parameters: the endpoint is the
  function's name, and calling such a function with view arguments is a
  \<^verbatim>\<open>TypeError\<close>.
\<close>

definition route ::
  "string \<Rightarrow> string \<Rightarrow> (request \<Rightarrow> world \<Rightarrow> (error + view_rv) \<times> world) \<Rightarrow> flask \<Rightarrow> flask" where
  "route r name f a =
     add_url_rule (Exact r) name
       (\<lambda>req args w. if args = [] then f req w else (Inl Unhandled, w)) a"

subsection \<open>Dispatching a request\<close>




fun match_pattern :: "rule_pattern \<Rightarrow> string \<Rightarrow> string list option" where
  "match_pattern (Exact s) p = (if p = s then Some [] else None)"
| "match_pattern (PathUnder pre) p =
     (if take (length pre) p = pre \<and> drop (length pre) p \<noteq> []
         \<and> hd (drop (length pre) p) \<noteq> CHR ''/''
      then Some [drop (length pre) p] else None)"

text \<open>The methods of every rule whose pattern matches the path, as a set.\<close>

definition allowed_methods :: "rule list \<Rightarrow> string \<Rightarrow> http_method set" where
  "allowed_methods rs p =
     \<Union> (set (map methods (filter (\<lambda>r. match_pattern (pattern r) p \<noteq> None) rs)))"

text \<open>The first rule that matches both the path and the method.\<close>

fun match_rules :: "rule list \<Rightarrow> http_method \<Rightarrow> string \<Rightarrow> (rule \<times> string list) option" where
  "match_rules [] m p = None"
| "match_rules (r # rs) m p =
     (case match_pattern (pattern r) p of
        None \<Rightarrow> match_rules rs m p
      | Some args \<Rightarrow> if m \<in> methods r then Some (r, args) else match_rules rs m p)"

text \<open>
  Werkzeug's \<^verbatim>\<open>MapAdapter.match\<close>: no rule for the path is \<^verbatim>\<open>NotFound\<close>,
  a rule for the path but none for the method is \<^verbatim>\<open>MethodNotAllowed\<close>.
\<close>

definition match_request :: "flask \<Rightarrow> request \<Rightarrow> error + rule \<times> string list" where
  "match_request a req =
     (case match_rules (url_map a) (req_method req) (req_path req) of
        Some m \<Rightarrow> Inr m
      | None \<Rightarrow>
          if allowed_methods (url_map a) (req_path req) = {} then Inl NotFound
          else Inl (MethodNotAllowed (allowed_methods (url_map a) (req_path req))))"

text \<open>
  \<^verbatim>\<open>Flask.dispatch_request\<close>: an \<^verbatim>\<open>OPTIONS\<close> request on a rule with
  automatic options is answered by the framework, any other matched request by the view
  function registered for the rule's endpoint.
\<close>

definition dispatch_request :: "flask \<Rightarrow> request \<Rightarrow> world \<Rightarrow> (error + view_rv) \<times> world" where
  "dispatch_request a req w =
     (case match_request a req of
        Inl e \<Rightarrow> (Inl e, w)
      | Inr (r, args) \<Rightarrow>
          if provide_automatic_options r \<and> req_method req = OPTIONS then
            (Inr (RvResponse \<lparr>status = 200, mimetype = ''text/html'',
                    allow = allowed_methods (url_map a) (req_path req), body = Bytes []\<rparr>), w)
          else
            (case view_functions a (endpoint r) of
               None \<Rightarrow> (Inl Unhandled, w)
             | Some f \<Rightarrow> f req args w))"

text \<open>
  Modelled from the spec: the hosting framework is not under \<^verbatim>\<open>src/\<close>. The spec
  gives the response to a returned string as "status 200, body = fixed string, content
  type text/plain or text/html depending on framework default"; of the two, Flask's
  response class has \<^verbatim>\<open>default_mimetype = "text/html"\<close> (and
  \<^verbatim>\<open>default_status = 200\<close>), with the string encoded as UTF-8.
\<close>

definition default_status :: nat where
  "default_status = 200"

definition default_mimetype :: string where
  "default_mimetype = ''text/html''"

definition make_response :: "view_rv \<Rightarrow> error + response" where
  "make_response rv =
     (case rv of
        RvResponse r \<Rightarrow> Inr r
      | RvStr s \<Rightarrow>
          (case encode_utf8 s of
             None \<Rightarrow> Inl Unhandled
           | Some bs \<Rightarrow>
               Inr \<lparr>status = default_status, mimetype = default_mimetype, allow = {},
                    body = Bytes bs\<rparr>))"

text \<open>The framework's own responses to exceptions.\<close>

fun handle_exception :: "error \<Rightarrow> response" where
  "handle_exception NotFound =
     \<lparr>status = 404, mimetype = ''text/html'', allow = {}, body = DefaultPage 404\<rparr>"
| "handle_exception (MethodNotAllowed ms) =
     \<lparr>status = 405, mimetype = ''text/html'', allow = ms, body = DefaultPage 405\<rparr>"
| "handle_exception Unhandled =
     \<lparr>status = 500, mimetype = ''text/html'', allow = {}, body = DefaultPage 500\<rparr>"

definition full_dispatch_request :: "flask \<Rightarrow> request \<Rightarrow> world \<Rightarrow> response \<times> world" where
  "full_dispatch_request a req w =
     (case dispatch_request a req w of
        (Inl e, w') \<Rightarrow> (handle_exception e, w')
      | (Inr rv, w') \<Rightarrow>
          (case make_response rv of
             Inl e \<Rightarrow> (handle_exception e, w')
           | Inr resp \<Rightarrow> (resp, w')))"

text \<open>The response as it is sent: the body of the answer to a \<^verbatim>\<open>HEAD\<close> is dropped.\<close>

definition wsgi_app :: "flask \<Rightarrow> request \<Rightarrow> world \<Rightarrow> response \<times> world" where
  "wsgi_app a req w =
     (case full_dispatch_request a req w of
        (resp, w') \<Rightarrow> (if req_method req = HEAD then resp\<lparr>body := Bytes []\<rparr> else resp, w'))"

text \<open>A running server answers the requests it receives one after the other.\<close>

fun serve :: "flask \<Rightarrow> request list \<Rightarrow> world \<Rightarrow> response list \<times> world" where
  "serve a [] w = ([], w)"
| "serve a (req # reqs) w =
     (case wsgi_app a req w of
        (resp, w') \<Rightarrow> (case serve a reqs w' of (resps, w'') \<Rightarrow> (resp # resps, w'')))"

section \<open>The module\<close>

text \<open>
  \<^verbatim>\<open>app = Flask(__name__)\<close> and the decorated definition of \<^verbatim>\<open>home\<close>, for the
  value \<^verbatim>\<open>__name__\<close> has when the module is executed.
\<close>

definition app :: "string \<Rightarrow> flask" where
  "app name = route ''/'' ''home'' home (Flask name)"

text \<open>The keyword arguments of a call of \<^verbatim>\<open>app.run\<close>; \<open>None\<close> is an argument left out.\<close>

record run_call =
  run_host :: "string option"
  run_port :: "nat option"
  run_debug :: "bool option"

text \<open>
  Executing the module: its inputs are \<^verbatim>\<open>__name__\<close>, the command line and the
  environment of the process; its results are the application object and the call of
  \<^verbatim>\<open>app.run\<close> it makes, if any
  (\<^verbatim>\<open>if __name__ == "__main__": app.run(debug=True)\<close>).
\<close>

definition app_module ::
  "string \<Rightarrow> string list \<Rightarrow> (string \<rightharpoonup> string) \<Rightarrow> flask \<times> run_call option" where
  "app_module name argv environ =
     (app name,
      if name = ''__main__''
      then Some \<lparr>run_host = None, run_port = None, run_debug = Some True\<rparr>
      else None)"

text \<open>
  The UTF-8 encoding of the string \<^verbatim>\<open>home\<close> returns: F0 9F 8E 89 for U+1F389, then
  the ASCII text.
\<close>

definition greeting_bytes :: string where
  "greeting_bytes =
     [CHR 0xF0, CHR 0x9F, CHR 0x8E, CHR 0x89] @ '' Skincare AI Backend is Running!''"

text \<open>Concrete requests and process states used below.\<close>

definition world0 :: world where
  "world0 = \<lparr>log_lines = [], static_folder = Map.empty, outbound_calls = []\<rparr>"

definition get_root :: request where
  "get_root = \<lparr>req_method = GET, req_path = ''/'', query_string = [], req_headers = [],
                req_data = []\<rparr>"

definition head_root :: request where
  "head_root = \<lparr>req_method = HEAD, req_path = ''/'', query_string = [], req_headers = [],
                 req_data = []\<rparr>"


definition post_root :: request where
  "post_root = \<lparr>req_method = POST, req_path = ''/'', query_string = [], req_headers = [],
                 req_data = ''x=1''\<rparr>"




definition get_missing :: request where
  "get_missing = \<lparr>req_method = GET, req_path = ''/missing'', query_string = [],
                   req_headers = [], req_data = []\<rparr>"

definition get_root_noisy :: request where
  "get_root_noisy = \<lparr>req_method = GET, req_path = ''/'', query_string = ''debug=1&user=eve'',
                      req_headers = [(''Accept'', ''application/json''), (''X-Token'', ''abc'')],
                      req_data = ''{}''\<rparr>"

definition world1 :: world where
  "world1 = \<lparr>log_lines = [''started''],
              static_folder = [''app.js'' \<mapsto> (''text/javascript'', ''var x;'')],
              outbound_calls = [''GET http://example.org/'']\<rparr>"

text \<open>The two rules of the application's URL map.\<close>

definition static_rule :: rule where
  "static_rule = \<lparr>pattern = PathUnder ''/static/'', methods = {GET, HEAD, OPTIONS},
     endpoint = ''static'', provide_automatic_options = True\<rparr>"

definition home_rule :: rule where
  "home_rule = \<lparr>pattern = Exact ''/'', methods = {GET, HEAD, OPTIONS},
     endpoint = ''home'', provide_automatic_options = True\<rparr>"

section \<open>Evaluating the model\<close>

subsection \<open>The greeting as bytes\<close>

lemma encode_utf8_ascii:
  "list_all (\<lambda>c. (of_char c :: nat) < 0x80) s \<Longrightarrow> encode_utf8 (map of_char s) = Some s"
  by (induction s) simp_all

lemma utf8_party_popper:
  "utf8_char 0x1F389 = Some [CHR 0xF0, CHR 0x9F, CHR 0x8E, CHR 0x89]"
  by (simp add: char_of_eq_iff take_bit_eq_mod)

lemma encode_greeting:
  "encode_utf8 (0x1F389 # map of_char '' Skincare AI Backend is Running!'') = Some greeting_bytes"
proof -
  have tail: "encode_utf8 (map of_char '' Skincare AI Backend is Running!'')
                = Some '' Skincare AI Backend is Running!''"
    by (rule encode_utf8_ascii) simp
  show ?thesis
    by (simp only: encode_utf8.simps utf8_party_popper tail option.case greeting_bytes_def)
qed

subsection \<open>The URL map and the requests for \<^verbatim>\<open>/\<close>\<close>

lemma url_map_app: "url_map (app name) = [static_rule, home_rule]"
  by (simp add: app_def route_def Flask_def add_url_rule_def static_rule_def home_rule_def)

lemma view_functions_app:
  "view_functions (app name) =
     [''static'' \<mapsto> send_static_file,
      ''home'' \<mapsto> (\<lambda>req args w. if args = [] then home req w else (Inl Unhandled, w))]"
  by (simp add: app_def route_def Flask_def add_url_rule_def)

lemma home_result:
  "home req w = (Inr (RvStr (0x1F389 # map of_char '' Skincare AI Backend is Running!'')), w)"
  by (simp only: home_def)

lemma make_response_home:
  "make_response (RvStr (0x1F389 # map of_char '' Skincare AI Backend is Running!'')) =
     Inr \<lparr>status = 200, mimetype = ''text/html'', allow = {}, body = Bytes greeting_bytes\<rparr>"
  by (simp only: make_response_def view_rv.case encode_greeting option.case
        default_status_def default_mimetype_def)

lemma match_root_at_root:
  "req_path req = ''/'' \<Longrightarrow> req_method req \<in> {GET, HEAD, OPTIONS} \<Longrightarrow>
   match_request (app name) req = Inr (home_rule, [])"
  by (auto simp add: match_request_def url_map_app static_rule_def home_rule_def)

lemma dispatch_home:
  "req_path req = ''/'' \<Longrightarrow> req_method req \<in> {GET, HEAD} \<Longrightarrow>
   dispatch_request (app name) req w = home req w"
  by (auto simp add: dispatch_request_def match_root_at_root view_functions_app home_rule_def)

lemma full_dispatch_home:
  "req_path req = ''/'' \<Longrightarrow> req_method req \<in> {GET, HEAD} \<Longrightarrow>
   full_dispatch_request (app name) req w =
     (\<lparr>status = 200, mimetype = ''text/html'', allow = {}, body = Bytes greeting_bytes\<rparr>, w)"
  by (simp only: full_dispatch_request_def dispatch_home home_result make_response_home
        prod.case sum.case)

lemma wsgi_get_root:
  "req_method req = GET \<Longrightarrow> req_path req = ''/'' \<Longrightarrow>
   wsgi_app (app name) req w =
     (\<lparr>status = 200, mimetype = ''text/html'', allow = {}, body = Bytes greeting_bytes\<rparr>, w)"
  by (simp add: wsgi_app_def full_dispatch_home)







subsection \<open>Responses built from a view's return value\<close>


subsection \<open>Other paths\<close>





subsection \<open>Paths under the static URL path\<close>









subsection \<open>A server answering many requests\<close>

lemma serve_nth_get_root:
  "i < length reqs \<Longrightarrow> req_method (reqs ! i) = GET \<Longrightarrow> req_path (reqs ! i) = ''/'' \<Longrightarrow>
   fst (serve (app name) reqs w) ! i =
     \<lparr>status = 200, mimetype = ''text/html'', allow = {}, body = Bytes greeting_bytes\<rparr>"
proof (induction reqs arbitrary: i w)
  case Nil
  then show ?case by simp
next
  case (Cons r rs)
  show ?case
  proof (cases i)
    case 0
    with Cons.prems show ?thesis
      by (simp add: wsgi_get_root split: prod.splits)
  next
    case (Suc k)
    with Cons.prems have "fst (serve (app name) rs w') ! k =
        \<lparr>status = 200, mimetype = ''text/html'', allow = {}, body = Bytes greeting_bytes\<rparr>" for w'
      by (intro Cons.IH) simp_all
    with Suc show ?thesis
      by (simp split: prod.splits) (metis fst_conv)
  qed
qed

section \<open>The claims\<close>

text \<open>
  C1. Every \<^verbatim>\<open>GET\<close> request for the path \<^verbatim>\<open>/\<close> is answered with status 200
  and a body that is, byte for byte, the UTF-8 encoding of the string \<^verbatim>\<open>home\<close>
  returns: the four bytes F0 9F 8E 89 of U+1F389 followed by
  \<^verbatim>\<open>" Skincare AI Backend is Running!"\<close>. This holds whatever the rest of the request,
  the process state and the module's name are.
\<close>

theorem get_root_status_and_body:
  assumes "req_method req = GET" and "req_path req = ''/''"
  shows "status (fst (wsgi_app (app name) req w)) = 200 \<and>
         body (fst (wsgi_app (app name) req w)) =
           Bytes ([CHR 0xF0, CHR 0x9F, CHR 0x8E, CHR 0x89] @ '' Skincare AI Backend is Running!'')"
  using assms by (simp add: wsgi_get_root greeting_bytes_def)

theorem get_root_status_and_body_witness:
  "req_method get_root = GET \<and> req_path get_root = ''/'' \<and>
   status (fst (wsgi_app (app ''__main__'') get_root world0)) = 200 \<and>
   body (fst (wsgi_app (app ''__main__'') get_root world0)) =
     Bytes ([CHR 0xF0, CHR 0x9F, CHR 0x8E, CHR 0x89] @ '' Skincare AI Backend is Running!'')"
  using get_root_status_and_body [of get_root "''__main__''" world0]
  by (simp add: get_root_def)

text \<open>
  C2. The handler is deterministic and stateless. \<^verbatim>\<open>home\<close> returns the same value
  for any two requests in any two process states, and in any two runs of the server, over
  any sequences of requests and from any states, the answers to any two
  \<^verbatim>\<open>GET /\<close> requests are the same response, wherever in the runs they come.
\<close>

theorem get_root_answers_identical:
  assumes "i < length reqs" and "req_method (reqs ! i) = GET" and "req_path (reqs ! i) = ''/''"
    and "j < length reqs'" and "req_method (reqs' ! j) = GET" and "req_path (reqs' ! j) = ''/''"
  shows "fst (home (reqs ! i) w) = fst (home (reqs' ! j) w') \<and>
         fst (serve (app name) reqs w) ! i = fst (serve (app name) reqs' w') ! j"
  using assms by (simp add: home_def serve_nth_get_root)

theorem get_root_answers_identical_witness:
  "(0::nat) < length [get_root, post_root] \<and>
   req_method ([get_root, post_root] ! 0) = GET \<and>
   req_path ([get_root, post_root] ! 0) = ''/'' \<and>
   Suc 0 < length [get_missing, get_root_noisy] \<and>
   req_method ([get_missing, get_root_noisy] ! Suc 0) = GET \<and>
   req_path ([get_missing, get_root_noisy] ! Suc 0) = ''/'' \<and>
   fst (home ([get_root, post_root] ! 0) world0) =
     fst (home ([get_missing, get_root_noisy] ! Suc 0) world1) \<and>
   fst (serve (app ''__main__'') [get_root, post_root] world0) ! 0 =
     fst (serve (app ''__main__'') [get_missing, get_root_noisy] world1) ! Suc 0"
  using get_root_answers_identical [of 0 "[get_root, post_root]" "Suc 0"
      "[get_missing, get_root_noisy]" world0 world1 "''__main__''"]
  by (simp add: get_root_def get_root_noisy_def)




text \<open>
  C4. \<^verbatim>\<open>home\<close> reads nothing of the request: it returns the same result for any two
  requests, and any two \<^verbatim>\<open>GET /\<close> requests, however they differ in query string,
  headers and body, get the same response in the same process state.
\<close>

theorem request_data_does_not_interfere:
  assumes "req_method r1 = GET" and "req_path r1 = ''/''"
    and "req_method r2 = GET" and "req_path r2 = ''/''"
  shows "home r1 w = home r2 w \<and> wsgi_app (app name) r1 w = wsgi_app (app name) r2 w"
  using assms by (simp add: home_def wsgi_get_root)

theorem request_data_does_not_interfere_witness:
  "req_method get_root = GET \<and> req_path get_root = ''/'' \<and>
   req_method get_root_noisy = GET \<and> req_path get_root_noisy = ''/'' \<and>
   query_string get_root \<noteq> query_string get_root_noisy \<and>
   req_headers get_root \<noteq> req_headers get_root_noisy \<and>
   req_data get_root \<noteq> req_data get_root_noisy \<and>
   home get_root world1 = home get_root_noisy world1 \<and>
   wsgi_app (app ''__main__'') get_root world1 =
     wsgi_app (app ''__main__'') get_root_noisy world1"
  using request_data_does_not_interfere [of get_root get_root_noisy world1 "''__main__''"]
  by (simp add: get_root_def get_root_noisy_def)

text \<open>
  C5. The string \<^verbatim>\<open>home\<close> returns contains the code point U+1F389 (PARTY POPPER, a
  celebration emoji) and the text \<^verbatim>\<open>Skincare AI Backend is Running\<close>; the body of
  the answer to \<^verbatim>\<open>GET /\<close> contains the four bytes of that emoji and the same text.
\<close>

theorem greeting_has_emoji_and_text:
  "(\<exists>s. fst (home req w) = Inr (RvStr s) \<and> 0x1F389 \<in> set s \<and>
        sublist (map of_char ''Skincare AI Backend is Running'') s) \<and>
   (\<exists>bs. body (fst (wsgi_app (app name) get_root w)) = Bytes bs \<and>
        sublist [CHR 0xF0, CHR 0x9F, CHR 0x8E, CHR 0x89] bs \<and>
        sublist ''Skincare AI Backend is Running'' bs)"
proof -
  let ?text = "''Skincare AI Backend is Running''"
  have "sublist (map of_char ?text) ([0x1F389, 0x20] @ map of_char ?text @ [0x21 :: nat])"
    by (rule sublist_appendI)
  then have str: "sublist (map of_char ?text)
      (0x1F389 # map of_char '' Skincare AI Backend is Running!'' :: nat list)"
    by simp
  have "sublist [CHR 0xF0, CHR 0x9F, CHR 0x8E, CHR 0x89]
      ([] @ [CHR 0xF0, CHR 0x9F, CHR 0x8E, CHR 0x89] @ '' Skincare AI Backend is Running!'')"
    by (rule sublist_appendI)
  then have emoji: "sublist [CHR 0xF0, CHR 0x9F, CHR 0x8E, CHR 0x89] greeting_bytes"
    by (simp add: greeting_bytes_def)
  have "sublist ?text ([CHR 0xF0, CHR 0x9F, CHR 0x8E, CHR 0x89, CHR '' ''] @ ?text @ ''!'')"
    by (rule sublist_appendI)
  then have words: "sublist ?text greeting_bytes"
    by (simp add: greeting_bytes_def)
  have "body (fst (wsgi_app (app name) get_root w)) = Bytes greeting_bytes"
    by (simp add: wsgi_get_root get_root_def)
  with emoji words have "\<exists>bs. body (fst (wsgi_app (app name) get_root w)) = Bytes bs \<and>
        sublist [CHR 0xF0, CHR 0x9F, CHR 0x8E, CHR 0x89] bs \<and> sublist ?text bs"
    by blast
  moreover have "\<exists>s. fst (home req w) = Inr (RvStr s) \<and> 0x1F389 \<in> set s \<and>
        sublist (map of_char ?text) s"
    using str by (intro exI [of _ "0x1F389 # map of_char '' Skincare AI Backend is Running!''"])
      (simp add: home_def)
  ultimately show ?thesis by blast
qed

text \<open>
  C6. Handling a request through \<^verbatim>\<open>home\<close> changes nothing: the state after
  \<^verbatim>\<open>home\<close> is the state before it (no log line, no file, no outbound call added),
  and so is the state after the whole answer to a \<^verbatim>\<open>GET\<close> or \<^verbatim>\<open>HEAD\<close>
  request for \<^verbatim>\<open>/\<close>, the requests that reach \<^verbatim>\<open>home\<close>.
\<close>

theorem home_has_no_side_effects:
  "snd (home req w) = w \<and>
   log_lines (snd (home req w)) = log_lines w \<and>
   static_folder (snd (home req w)) = static_folder w \<and>
   outbound_calls (snd (home req w)) = outbound_calls w \<and>
   (req_path req = ''/'' \<and> req_method req \<in> {GET, HEAD} \<longrightarrow>
      snd (wsgi_app (app name) req w) = w)"
  by (simp add: home_def wsgi_app_def full_dispatch_home)

theorem home_has_no_side_effects_witness:
  "req_path get_root_noisy = ''/'' \<and> req_method get_root_noisy \<in> {GET, HEAD} \<and>
   snd (home get_root_noisy world1) = world1 \<and>
   snd (wsgi_app (app ''__main__'') get_root_noisy world1) = world1"
  using home_has_no_side_effects [of get_root_noisy world1 "''__main__''"]
  by (simp add: get_root_noisy_def)

text \<open>
  C7. The application sets no content type: \<^verbatim>\<open>home\<close> returns a bare string, not a
  response object, so the content type of the answer to \<^verbatim>\<open>GET /\<close> is the
  framework's default for a string, which is one of \<^verbatim>\<open>text/plain\<close> and
  \<^verbatim>\<open>text/html\<close>.
\<close>

theorem content_type_is_framework_default:
  assumes "req_method req = GET" and "req_path req = ''/''"
  shows "(\<exists>s. fst (home req w) = Inr (RvStr s)) \<and>
         mimetype (fst (wsgi_app (app name) req w)) = default_mimetype \<and>
         default_mimetype \<in> {''text/plain'', ''text/html''}"
  using assms by (simp add: home_def wsgi_get_root default_mimetype_def)

theorem content_type_is_framework_default_witness:
  "req_method get_root = GET \<and> req_path get_root = ''/'' \<and>
   mimetype (fst (wsgi_app (app ''__main__'') get_root world0)) = default_mimetype \<and>
   default_mimetype \<in> {''text/plain'', ''text/html''}"
  using content_type_is_framework_default [of get_root world0 "''__main__''"]
  by (simp add: get_root_def)

text \<open>
  C8. Run as the main program, the module starts the server: it calls
  \<^verbatim>\<open>app.run\<close> with \<^verbatim>\<open>debug=True\<close> and no other argument. Neither the
  application object nor that call depends on the command line or on the environment
  variables of the process.
\<close>

theorem entry_point_starts_server_unconfigured:
  "snd (app_module ''__main__'' argv environ) =
     Some \<lparr>run_host = None, run_port = None, run_debug = Some True\<rparr> \<and>
   app_module name argv environ = app_module name argv' environ'"
  by (simp add: app_module_def)

text \<open>
  C9. \<^verbatim>\<open>home\<close> is total and raises nothing: for every request and state it returns
  its one constant string, the state unchanged, and the framework builds the response
  from that string without an exception. So every request that reaches \<^verbatim>\<open>home\<close>,
  a \<^verbatim>\<open>GET\<close> or \<^verbatim>\<open>HEAD\<close> for \<^verbatim>\<open>/\<close>, is dispatched to it and answered
  with status 200, never with the framework's 500.
\<close>

theorem home_never_raises:
  "home req w =
     (Inr (RvStr (0x1F389 # map of_char '' Skincare AI Backend is Running!'')), w) \<and>
   make_response (RvStr (0x1F389 # map of_char '' Skincare AI Backend is Running!'')) =
     Inr \<lparr>status = 200, mimetype = ''text/html'', allow = {}, body = Bytes greeting_bytes\<rparr> \<and>
   (req_path req = ''/'' \<and> req_method req \<in> {GET, HEAD} \<longrightarrow>
      dispatch_request (app name) req w = home req w \<and>
      status (fst (wsgi_app (app name) req w)) = 200 \<and>
      status (fst (wsgi_app (app name) req w)) \<noteq> 500)"
proof -
  have "status (fst (wsgi_app (app name) req w)) = 200"
    if "req_path req = ''/''" and "req_method req \<in> {GET, HEAD}"
    using that by (simp add: wsgi_app_def full_dispatch_home)
  moreover have "dispatch_request (app name) req w = home req w"
    if "req_path req = ''/''" and "req_method req \<in> {GET, HEAD}"
    using that by (rule dispatch_home)
  ultimately show ?thesis
    using home_result [of req w] make_response_home by simp
qed

theorem home_never_raises_witness:
  "req_path head_root = ''/'' \<and> req_method head_root \<in> {GET, HEAD} \<and>
   dispatch_request (app ''__main__'') head_root world1 = home head_root world1 \<and>
   status (fst (wsgi_app (app ''__main__'') head_root world1)) = 200 \<and>
   status (fst (wsgi_app (app ''__main__'') get_root_noisy world1)) = 200"
  using home_never_raises [of head_root world1 "''__main__''"]
    home_never_raises [of get_root_noisy world1 "''__main__''"]
  by (simp add: head_root_def get_root_noisy_def)

text \<open>
  C10. Importing the module does not start the server: under any name other than
  \<^verbatim>\<open>__main__\<close> the module makes no call of \<^verbatim>\<open>app.run\<close>, under
  \<^verbatim>\<open>__main__\<close> it makes one. In both cases it constructs the application object
  and adds the one rule for \<^verbatim>\<open>/\<close> to the URL map the constructor made, with
  \<^verbatim>\<open>home\<close> as the only view function registered besides the framework's
  \<^verbatim>\<open>static\<close>.
\<close>

theorem import_does_not_start_server:
  "(name \<noteq> ''__main__'' \<longrightarrow> snd (app_module name argv environ) = None) \<and>
   (name = ''__main__'' \<longrightarrow> snd (app_module name argv environ) \<noteq> None) \<and>
   import_name (fst (app_module name argv environ)) = name \<and>
   url_map (fst (app_module name argv environ)) = url_map (Flask name) @ [home_rule] \<and>
   dom (view_functions (fst (app_module name argv environ))) = {''static'', ''home''}"
proof -
  have "url_map (app name) = url_map (Flask name) @ [home_rule]"
    by (simp add: app_def route_def add_url_rule_def home_rule_def)
  moreover have "dom (view_functions (app name)) = {''static'', ''home''}"
    by (auto simp add: view_functions_app)
  moreover have "import_name (app name) = name"
    by (simp add: app_def route_def Flask_def add_url_rule_def)
  ultimately show ?thesis
    by (simp add: app_module_def)
qed

theorem import_does_not_start_server_witness:
  "''app'' \<noteq> ''__main__'' \<and> snd (app_module ''app'' [''flask'', ''run''] Map.empty) = None \<and>
   snd (app_module ''__main__'' [''app.py''] Map.empty) \<noteq> None \<and>
   url_map (fst (app_module ''app'' [''flask'', ''run''] Map.empty)) =
     url_map (Flask ''app'') @ [home_rule]"
  using import_does_not_start_server [of "''app''" "[''flask'', ''run'']" Map.empty]
    import_does_not_start_server [of "''__main__''" "[''app.py'']" Map.empty]
  by simp

end
